theory Spec2Isabelle
  imports Main
begin

section \<open>Exceptions and outcomes\<close>

text \<open>
  The only exception type the library defines is \<open>bad_function_call\<close>; every other
  exception (thrown by a held callable, by its constructors or by the allocator) is opaque
  to the library and is identified by its message.
\<close>

datatype exn = bad_function_call | other_exception string

fun what :: "exn \<Rightarrow> string" where
  "what bad_function_call = ''bad function call''"
| "what (other_exception msg) = msg"

definition bad_alloc :: exn where
  "bad_alloc = other_exception ''std::bad_alloc''"

text \<open>
  A call either returns a result in a new state, leaves by an exception in a new state
  (the handler of a \<open>try\<close> block continues from that state), or has no defined behaviour
  (a read through an indeterminate table pointer, a use of storage that holds no live
  object, a \<open>delete\<close> of an address that is not allocated).
\<close>

datatype ('r, 's) outcome = Returned 'r 's | Thrown exn 's | Undefined_behaviour

fun and_then :: "('r, 's) outcome \<Rightarrow> ('r \<Rightarrow> 's \<Rightarrow> ('q, 's) outcome) \<Rightarrow> ('q, 's) outcome" where
  "and_then (Returned r s) k = k r s"
| "and_then (Thrown e s) k = Thrown e s"
| "and_then Undefined_behaviour k = Undefined_behaviour"

section \<open>Concrete callable types\<close>

text \<open>
  A concrete callable type \<open>T\<close> is supplied by client code. The library uses its size
  and alignment, the \<open>is_nothrow_move_constructible\<close> trait, its copy constructor, its
  move constructor, its destructor and its call operator. Values of \<open>T\<close> are drawn from
  \<open>'v\<close>. A copy constructor either throws or yields an object with the value of its
  argument; a move constructor either throws (only possible when the trait is false) or
  yields an object with the value of its argument and leaves the argument in the
  moved-from state \<open>moved_from\<close>. The call operator is \<open>const\<close>: its result is a
  function of the value and the argument list.
\<close>

type_synonym type_id = nat
type_synonym address = nat

record ('v, 'a, 'r) callable =
  sizeof :: nat
  alignof :: nat
  is_nothrow_move_constructible :: bool
  copy_throws :: "'v \<Rightarrow> exn option"
  move_throws :: "'v \<Rightarrow> exn option"
  moved_from :: "'v \<Rightarrow> 'v"
  call_operator :: "'v \<Rightarrow> 'a \<Rightarrow> exn + 'r"

text \<open>
  The program fixes the callable types by their identity, the size and alignment of a
  raw address (\<open>sizeof(void*)\<close>, \<open>alignof(void*)\<close>) and the number of objects the
  allocator can hold before \<open>operator new\<close> throws.
\<close>

record ('v, 'a, 'r) program =
  types :: "type_id \<Rightarrow> ('v, 'a, 'r) callable"
  sizeof_ptr :: nat
  alignof_ptr :: nat
  heap_capacity :: nat

definition INPLACE_BUFFER_SIZE :: "('v, 'a, 'r) program \<Rightarrow> nat" where
  "INPLACE_BUFFER_SIZE P = sizeof_ptr P"

definition INPLACE_BUFFER_ALIGNMENT :: "('v, 'a, 'r) program \<Rightarrow> nat" where
  "INPLACE_BUFFER_ALIGNMENT P = alignof_ptr P"

definition fits_small_storage :: "('v, 'a, 'r) program \<Rightarrow> type_id \<Rightarrow> bool" where
  "fits_small_storage P T \<longleftrightarrow>
     sizeof (types P T) \<le> INPLACE_BUFFER_SIZE P
     \<and> alignof (types P T) \<le> INPLACE_BUFFER_ALIGNMENT P
     \<and> is_nothrow_move_constructible (types P T)"

section \<open>Storage and memory\<close>

text \<open>
  The inline buffer holds no live object (\<open>Indeterminate\<close>: never written, or its object
  was destroyed, or a constructor left it by an exception), a live object constructed in
  place, or a raw address. The table pointer is \<open>None\<close> while it is indeterminate;
  otherwise it is the address of one of the static tables: the empty-state table or the
  table of a concrete type.
\<close>

datatype 'v inplace_buffer = Indeterminate | Object 'v | Pointer address

datatype desc_ptr = empty_type_descriptor | get_type_descriptor type_id

record 'v storage =
  buf :: "'v inplace_buffer"
  desc :: "desc_ptr option"

text \<open>
  Storage objects live at locations: the storage of the container with a given address,
  or the local \<open>backup\<close> of copy-assignment. The heap is the list of the live objects
  made by \<open>new\<close>, each with its address.
\<close>

datatype loc = Function nat | Backup

record 'v memory =
  stgs :: "loc \<Rightarrow> 'v storage"
  heap :: "(address \<times> 'v) list"

definition default_storage :: "'v storage" where
  "default_storage = \<lparr>buf = Indeterminate, desc = None\<rparr>"

definition declare_storage :: "loc \<Rightarrow> 'v memory \<Rightarrow> 'v memory" where
  "declare_storage p m = m\<lparr>stgs := (stgs m)(p := default_storage)\<rparr>"

definition set_buf :: "loc \<Rightarrow> 'v inplace_buffer \<Rightarrow> 'v memory \<Rightarrow> 'v memory" where
  "set_buf p b m = m\<lparr>stgs := (stgs m)(p := (stgs m p)\<lparr>buf := b\<rparr>)\<rparr>"

definition set_desc :: "loc \<Rightarrow> desc_ptr option \<Rightarrow> 'v memory \<Rightarrow> 'v memory" where
  "set_desc p d m = m\<lparr>stgs := (stgs m)(p := (stgs m p)\<lparr>desc := d\<rparr>)\<rparr>"

definition get_desc :: "'v memory \<Rightarrow> loc \<Rightarrow> desc_ptr option" where
  "get_desc m p = desc (stgs m p)"

definition get_static :: "'v memory \<Rightarrow> loc \<Rightarrow> 'v option" where
  "get_static m p = (case buf (stgs m p) of Object v \<Rightarrow> Some v | _ \<Rightarrow> None)"

definition get_dynamic :: "'v memory \<Rightarrow> loc \<Rightarrow> address option" where
  "get_dynamic m p = (case buf (stgs m p) of Pointer a \<Rightarrow> Some a | _ \<Rightarrow> None)"

definition set_dynamic :: "loc \<Rightarrow> address \<Rightarrow> 'v memory \<Rightarrow> 'v memory" where
  "set_dynamic p a m = set_buf p (Pointer a) m"

subsection \<open>The allocator\<close>

definition fresh_address :: "(address \<times> 'v) list \<Rightarrow> address" where
  "fresh_address h = Suc (fold max (map fst h) 0)"

definition allocated :: "'v memory \<Rightarrow> address \<Rightarrow> bool" where
  "allocated m a \<longleftrightarrow> map_of (heap m) a \<noteq> None"

text \<open>
  \<open>new T(x)\<close> with the copy constructor: the allocation comes first and may throw; the
  constructor then may throw, in which case the allocation is released again.
\<close>

definition new_copy ::
  "('v, 'a, 'r) program \<Rightarrow> type_id \<Rightarrow> 'v \<Rightarrow> 'v memory \<Rightarrow> (address, 'v memory) outcome" where
  "new_copy P T v m =
     (if heap_capacity P \<le> length (heap m) then Thrown bad_alloc m
      else case copy_throws (types P T) v of
             Some e \<Rightarrow> Thrown e m
           | None \<Rightarrow> Returned (fresh_address (heap m))
                       (m\<lparr>heap := (fresh_address (heap m), v) # heap m\<rparr>))"

text \<open>\<open>new T(std::move(x))\<close>: the same with the move constructor.\<close>

definition new_move ::
  "('v, 'a, 'r) program \<Rightarrow> type_id \<Rightarrow> 'v \<Rightarrow> 'v memory \<Rightarrow> (address, 'v memory) outcome" where
  "new_move P T v m =
     (if heap_capacity P \<le> length (heap m) then Thrown bad_alloc m
      else case (if is_nothrow_move_constructible (types P T) then None
                 else move_throws (types P T) v) of
             Some e \<Rightarrow> Thrown e m
           | None \<Rightarrow> Returned (fresh_address (heap m))
                       (m\<lparr>heap := (fresh_address (heap m), v) # heap m\<rparr>))"

text \<open>\<open>delete p\<close> of an address that is not allocated (a double free) is undefined.\<close>

definition delete_object :: "address \<Rightarrow> 'v memory \<Rightarrow> (unit, 'v memory) outcome" where
  "delete_object a m =
     (if allocated m a then Returned () (m\<lparr>heap := filter (\<lambda>c. fst c \<noteq> a) (heap m)\<rparr>)
      else Undefined_behaviour)"

section \<open>Operation tables\<close>

record ('v, 'a, 'r) type_descriptor =
  copy :: "loc \<Rightarrow> loc \<Rightarrow> 'v memory \<Rightarrow> (unit, 'v memory) outcome"
  move :: "loc \<Rightarrow> loc \<Rightarrow> 'v memory \<Rightarrow> (unit, 'v memory) outcome"
  invoke :: "loc \<Rightarrow> 'a \<Rightarrow> 'v memory \<Rightarrow> ('r, unit) outcome"
  destroy :: "loc \<Rightarrow> 'v memory \<Rightarrow> (unit, 'v memory) outcome"

text \<open>The table of the empty state (the static \<open>instance\<close> of \<open>empty_type_descriptor\<close>).\<close>

definition empty_instance :: "('v, 'a, 'r) type_descriptor" where
  "empty_instance =
     \<lparr>copy = (\<lambda>dst src m. Returned () (set_desc dst (Some empty_type_descriptor) m)),
      move = (\<lambda>dst src m. Returned () (set_desc dst (Some empty_type_descriptor) m)),
      invoke = (\<lambda>src args m. Thrown bad_function_call ()),
      destroy = (\<lambda>src m. Returned () m)\<rparr>"

text \<open>
  The table of a type that fits the small storage (the static \<open>instance\<close> of the first
  specialisation of \<open>object_traits\<close>). A copy constructor that throws leaves no live
  object in the destination's buffer and the destination's table pointer as it was.
\<close>

definition small_copy ::
  "('v, 'a, 'r) program \<Rightarrow> type_id \<Rightarrow> loc \<Rightarrow> loc \<Rightarrow> 'v memory \<Rightarrow> (unit, 'v memory) outcome" where
  "small_copy P T dst src m =
     (case get_static m src of
        None \<Rightarrow> Undefined_behaviour
      | Some v \<Rightarrow>
          (case copy_throws (types P T) v of
             Some e \<Rightarrow> Thrown e (set_buf dst Indeterminate m)
           | None \<Rightarrow>
               (let m1 = set_buf dst (Object v) m
                in Returned () (set_desc dst (get_desc m1 src) m1))))"

definition small_move ::
  "('v, 'a, 'r) program \<Rightarrow> type_id \<Rightarrow> loc \<Rightarrow> loc \<Rightarrow> 'v memory \<Rightarrow> (unit, 'v memory) outcome" where
  "small_move P T dst src m =
     (case get_static m src of
        None \<Rightarrow> Undefined_behaviour
      | Some v \<Rightarrow>
          (let m1 = set_buf src (Object (moved_from (types P T) v)) (set_buf dst (Object v) m)
           in Returned () (set_desc dst (get_desc m1 src) m1)))"

definition small_invoke ::
  "('v, 'a, 'r) program \<Rightarrow> type_id \<Rightarrow> loc \<Rightarrow> 'a \<Rightarrow> 'v memory \<Rightarrow> ('r, unit) outcome" where
  "small_invoke P T src args m =
     (case get_static m src of
        None \<Rightarrow> Undefined_behaviour
      | Some v \<Rightarrow>
          (case call_operator (types P T) v args of
             Inl e \<Rightarrow> Thrown e ()
           | Inr r \<Rightarrow> Returned r ()))"

definition small_destroy ::
  "('v, 'a, 'r) program \<Rightarrow> type_id \<Rightarrow> loc \<Rightarrow> 'v memory \<Rightarrow> (unit, 'v memory) outcome" where
  "small_destroy P T src m =
     (case get_static m src of
        None \<Rightarrow> Undefined_behaviour
      | Some v \<Rightarrow> Returned () (set_buf src Indeterminate m))"

definition small_instance :: "('v, 'a, 'r) program \<Rightarrow> type_id \<Rightarrow> ('v, 'a, 'r) type_descriptor" where
  "small_instance P T =
     \<lparr>copy = small_copy P T, move = small_move P T,
      invoke = small_invoke P T, destroy = small_destroy P T\<rparr>"

text \<open>
  The table of a type that does not fit (the static \<open>instance\<close> of the second
  specialisation). The buffer holds the address of the object on the heap.
\<close>

definition big_copy ::
  "('v, 'a, 'r) program \<Rightarrow> type_id \<Rightarrow> loc \<Rightarrow> loc \<Rightarrow> 'v memory \<Rightarrow> (unit, 'v memory) outcome" where
  "big_copy P T dst src m =
     (case get_dynamic m src of
        None \<Rightarrow> Undefined_behaviour
      | Some p \<Rightarrow>
          (case map_of (heap m) p of
             None \<Rightarrow> Undefined_behaviour
           | Some v \<Rightarrow>
               and_then (new_copy P T v m) (\<lambda>a m1.
                 (let m2 = set_dynamic dst a m1
                  in Returned () (set_desc dst (get_desc m2 src) m2)))))"

definition big_move ::
  "('v, 'a, 'r) program \<Rightarrow> type_id \<Rightarrow> loc \<Rightarrow> loc \<Rightarrow> 'v memory \<Rightarrow> (unit, 'v memory) outcome" where
  "big_move P T dst src m =
     (case get_dynamic m src of
        None \<Rightarrow> Undefined_behaviour
      | Some p \<Rightarrow>
          (let m1 = set_dynamic dst p m;
               m2 = set_desc dst (get_desc m1 src) m1
           in Returned () (set_desc src (Some empty_type_descriptor) m2)))"

definition big_invoke ::
  "('v, 'a, 'r) program \<Rightarrow> type_id \<Rightarrow> loc \<Rightarrow> 'a \<Rightarrow> 'v memory \<Rightarrow> ('r, unit) outcome" where
  "big_invoke P T src args m =
     (case get_dynamic m src of
        None \<Rightarrow> Undefined_behaviour
      | Some p \<Rightarrow>
          (case map_of (heap m) p of
             None \<Rightarrow> Undefined_behaviour
           | Some v \<Rightarrow>
               (case call_operator (types P T) v args of
                  Inl e \<Rightarrow> Thrown e ()
                | Inr r \<Rightarrow> Returned r ())))"

definition big_destroy ::
  "('v, 'a, 'r) program \<Rightarrow> type_id \<Rightarrow> loc \<Rightarrow> 'v memory \<Rightarrow> (unit, 'v memory) outcome" where
  "big_destroy P T src m =
     (case get_dynamic m src of
        None \<Rightarrow> Undefined_behaviour
      | Some p \<Rightarrow> delete_object p m)"

definition big_instance :: "('v, 'a, 'r) program \<Rightarrow> type_id \<Rightarrow> ('v, 'a, 'r) type_descriptor" where
  "big_instance P T =
     \<lparr>copy = big_copy P T, move = big_move P T,
      invoke = big_invoke P T, destroy = big_destroy P T\<rparr>"

text \<open>
  The table a table pointer points at. \<open>object_traits<T>\<close> has one specialisation for
  each value of \<open>fits_small_storage<T>\<close>.
\<close>

fun table :: "('v, 'a, 'r) program \<Rightarrow> desc_ptr \<Rightarrow> ('v, 'a, 'r) type_descriptor" where
  "table P empty_type_descriptor = empty_instance"
| "table P (get_type_descriptor T) =
     (if fits_small_storage P T then small_instance P T else big_instance P T)"

text \<open>
  \<open>q->desc->copy(dst, src)\<close> and its siblings: the call through the table pointer stored
  at \<open>q\<close>.
\<close>

definition desc_copy ::
  "('v, 'a, 'r) program \<Rightarrow> loc \<Rightarrow> loc \<Rightarrow> loc \<Rightarrow> 'v memory \<Rightarrow> (unit, 'v memory) outcome" where
  "desc_copy P q dst src m =
     (case get_desc m q of None \<Rightarrow> Undefined_behaviour | Some d \<Rightarrow> copy (table P d) dst src m)"

definition desc_move ::
  "('v, 'a, 'r) program \<Rightarrow> loc \<Rightarrow> loc \<Rightarrow> loc \<Rightarrow> 'v memory \<Rightarrow> (unit, 'v memory) outcome" where
  "desc_move P q dst src m =
     (case get_desc m q of None \<Rightarrow> Undefined_behaviour | Some d \<Rightarrow> move (table P d) dst src m)"

definition desc_invoke ::
  "('v, 'a, 'r) program \<Rightarrow> loc \<Rightarrow> loc \<Rightarrow> 'a \<Rightarrow> 'v memory \<Rightarrow> ('r, unit) outcome" where
  "desc_invoke P q src args m =
     (case get_desc m q of None \<Rightarrow> Undefined_behaviour | Some d \<Rightarrow> invoke (table P d) src args m)"

definition desc_destroy ::
  "('v, 'a, 'r) program \<Rightarrow> loc \<Rightarrow> loc \<Rightarrow> 'v memory \<Rightarrow> (unit, 'v memory) outcome" where
  "desc_destroy P q src m =
     (case get_desc m q of None \<Rightarrow> Undefined_behaviour | Some d \<Rightarrow> destroy (table P d) src m)"

text \<open>\<open>initialize_storage\<close> and \<open>as_target\<close> of the two specialisations.\<close>

definition initialize_storage ::
  "('v, 'a, 'r) program \<Rightarrow> type_id \<Rightarrow> loc \<Rightarrow> 'v \<Rightarrow> 'v memory \<Rightarrow> (unit, 'v memory) outcome" where
  "initialize_storage P T stg func_obj m =
     (if fits_small_storage P T then Returned () (set_buf stg (Object func_obj) m)
      else and_then (new_move P T func_obj m) (\<lambda>a m1. Returned () (set_dynamic stg a m1)))"

datatype pointer = Into_buffer loc | Into_heap address

definition as_target ::
  "('v, 'a, 'r) program \<Rightarrow> type_id \<Rightarrow> loc \<Rightarrow> 'v memory \<Rightarrow> (pointer option, unit) outcome" where
  "as_target P T stg m =
     (if fits_small_storage P T then Returned (Some (Into_buffer stg)) ()
      else case get_dynamic m stg of
             None \<Rightarrow> Undefined_behaviour
           | Some a \<Rightarrow> Returned (Some (Into_heap a)) ())"

text \<open>Reading through a pointer to a held object.\<close>

fun load :: "'v memory \<Rightarrow> pointer \<Rightarrow> 'v option" where
  "load m (Into_buffer p) = get_static m p"
| "load m (Into_heap a) = map_of (heap m) a"

section \<open>The container\<close>

text \<open>
  \<open>function<R (Args...)>\<close>. A container is identified by its address; its storage
  \<open>stg\<close> is at \<open>Function this\<close>. A constructor starts from a default-initialised
  storage, whose buffer and table pointer are indeterminate.
\<close>

definition function_default :: "('v, 'a, 'r) program \<Rightarrow> nat \<Rightarrow> 'v memory \<Rightarrow> (unit, 'v memory) outcome" where
  "function_default P this m =
     Returned () (set_desc (Function this) (Some empty_type_descriptor)
                    (declare_storage (Function this) m))"

definition function_copy ::
  "('v, 'a, 'r) program \<Rightarrow> nat \<Rightarrow> nat \<Rightarrow> 'v memory \<Rightarrow> (unit, 'v memory) outcome" where
  "function_copy P this other m =
     desc_copy P (Function other) (Function this) (Function other)
       (declare_storage (Function this) m)"

definition function_move ::
  "('v, 'a, 'r) program \<Rightarrow> nat \<Rightarrow> nat \<Rightarrow> 'v memory \<Rightarrow> (unit, 'v memory) outcome" where
  "function_move P this other m =
     desc_move P (Function other) (Function this) (Function other)
       (declare_storage (Function this) m)"

definition function_from ::
  "('v, 'a, 'r) program \<Rightarrow> type_id \<Rightarrow> nat \<Rightarrow> 'v \<Rightarrow> 'v memory \<Rightarrow> (unit, 'v memory) outcome" where
  "function_from P T this val m =
     initialize_storage P T (Function this) val
       (set_desc (Function this) (Some (get_type_descriptor T))
          (declare_storage (Function this) m))"

definition assign_copy ::
  "('v, 'a, 'r) program \<Rightarrow> nat \<Rightarrow> nat \<Rightarrow> 'v memory \<Rightarrow> (unit, 'v memory) outcome" where
  "assign_copy P this rhs m =
     (if this = rhs then Returned () m
      else
        and_then (desc_move P (Function this) Backup (Function this) (declare_storage Backup m))
          (\<lambda>_ m1.
        and_then (desc_destroy P (Function this) (Function this) m1)
          (\<lambda>_ m2.
        case desc_copy P (Function rhs) (Function this) (Function rhs) m2 of
          Thrown e m3 \<Rightarrow>
            and_then (desc_move P Backup (Function this) Backup m3)
              (\<lambda>_ m4.
            and_then (desc_destroy P Backup Backup m4)
              (\<lambda>_ m5. Thrown e m5))
        | Returned _ m3 \<Rightarrow> desc_destroy P Backup Backup m3
        | Undefined_behaviour \<Rightarrow> Undefined_behaviour)))"

definition assign_move ::
  "('v, 'a, 'r) program \<Rightarrow> nat \<Rightarrow> nat \<Rightarrow> 'v memory \<Rightarrow> (unit, 'v memory) outcome" where
  "assign_move P this rhs m =
     (if this = rhs then Returned () m
      else
        and_then (desc_destroy P (Function this) (Function this) m)
          (\<lambda>_ m1. desc_move P (Function rhs) (Function this) (Function rhs) m1))"

definition function_destructor ::
  "('v, 'a, 'r) program \<Rightarrow> nat \<Rightarrow> 'v memory \<Rightarrow> (unit, 'v memory) outcome" where
  "function_destructor P this m = desc_destroy P (Function this) (Function this) m"

definition operator_bool :: "'v memory \<Rightarrow> nat \<Rightarrow> bool" where
  "operator_bool m this \<longleftrightarrow> get_desc m (Function this) \<noteq> Some empty_type_descriptor"

definition operator_call ::
  "('v, 'a, 'r) program \<Rightarrow> nat \<Rightarrow> 'a \<Rightarrow> 'v memory \<Rightarrow> ('r, unit) outcome" where
  "operator_call P this args m = desc_invoke P (Function this) (Function this) args m"

definition target ::
  "('v, 'a, 'r) program \<Rightarrow> type_id \<Rightarrow> nat \<Rightarrow> 'v memory \<Rightarrow> (pointer option, unit) outcome" where
  "target P T this m =
     (if get_desc m (Function this) = Some (get_type_descriptor T)
      then as_target P T (Function this) m
      else Returned None ())"

section \<open>Live containers and what can be observed of them\<close>

text \<open>
  The representation invariant of a live container: its table pointer is the address of
  a table, and the buffer holds what that table reads from it: nothing for the empty
  table, a live object for the table of a type that fits, the address of a live heap
  object otherwise.
\<close>

definition valid :: "('v, 'a, 'r) program \<Rightarrow> 'v memory \<Rightarrow> loc \<Rightarrow> bool" where
  "valid P m p =
     (case get_desc m p of
        None \<Rightarrow> False
      | Some empty_type_descriptor \<Rightarrow> True
      | Some (get_type_descriptor T) \<Rightarrow>
          (if fits_small_storage P T then get_static m p \<noteq> None
           else case get_dynamic m p of None \<Rightarrow> False | Some a \<Rightarrow> allocated m a))"

text \<open>
  The held value, read through the typed probe for the type whose table the container
  points at; \<open>None\<close> for an empty container.
\<close>

definition held_value :: "('v, 'a, 'r) program \<Rightarrow> 'v memory \<Rightarrow> nat \<Rightarrow> 'v option" where
  "held_value P m this =
     (case get_desc m (Function this) of
        Some (get_type_descriptor T) \<Rightarrow>
          (case target P T this m of
             Returned (Some ptr) _ \<Rightarrow> load m ptr
           | _ \<Rightarrow> None)
      | _ \<Rightarrow> None)"

text \<open>
  Two states show the same container at \<open>this\<close>: the emptiness test, every invocation
  and every typed probe, with the object it points to, agree.
\<close>

definition same_observations ::
  "('v, 'a, 'r) program \<Rightarrow> nat \<Rightarrow> 'v memory \<Rightarrow> 'v memory \<Rightarrow> bool" where
  "same_observations P this m m' \<longleftrightarrow>
     operator_bool m' this = operator_bool m this
     \<and> (\<forall>args. operator_call P this args m' = operator_call P this args m)
     \<and> (\<forall>T. target P T this m' = target P T this m)
     \<and> held_value P m' this = held_value P m this"




text \<open>
  Copying the held value of a live container succeeds: the container is empty, or the
  copy constructor of the held type does not throw on the held value and, for a value on
  the heap, the allocator has room for one more object.
\<close>

definition copy_succeeds :: "('v, 'a, 'r) program \<Rightarrow> 'v memory \<Rightarrow> nat \<Rightarrow> bool" where
  "copy_succeeds P m this \<longleftrightarrow>
     (case get_desc m (Function this) of
        None \<Rightarrow> False
      | Some empty_type_descriptor \<Rightarrow> True
      | Some (get_type_descriptor T) \<Rightarrow>
          (case held_value P m this of
             None \<Rightarrow> False
           | Some v \<Rightarrow>
               copy_throws (types P T) v = None
               \<and> (fits_small_storage P T \<or> length (heap m) < heap_capacity P)))"

text \<open>
  Constructing a container from a value of type \<open>T\<close> succeeds: the type fits the small
  storage, or the allocator has room and the move constructor of \<open>T\<close> does not throw on
  the value.
\<close>

definition construction_succeeds ::
  "('v, 'a, 'r) program \<Rightarrow> type_id \<Rightarrow> 'v \<Rightarrow> 'v memory \<Rightarrow> bool" where
  "construction_succeeds P T val m \<longleftrightarrow>
     fits_small_storage P T
     \<or> (length (heap m) < heap_capacity P
        \<and> (is_nothrow_move_constructible (types P T) \<or> move_throws (types P T) val = None))"

section \<open>An example program\<close>

text \<open>
  Four callable types over natural numbers, on a platform with 8-byte addresses:
  type 0 is small and copies without failure; type 1 is large and its copy constructor
  always throws; type 2 is large and copies without failure; type 3 is small and its copy
  constructor always throws.
\<close>

definition copy_failed :: exn where
  "copy_failed = other_exception ''copy failed''"

definition example_types :: "type_id \<Rightarrow> (nat, nat, nat) callable" where
  "example_types T =
     (if T = 0 then
        \<lparr>sizeof = 4, alignof = 4, is_nothrow_move_constructible = True,
         copy_throws = (\<lambda>v. None), move_throws = (\<lambda>v. None),
         moved_from = (\<lambda>v. 0), call_operator = (\<lambda>v a. Inr (v + a))\<rparr>
      else if T = 1 then
        \<lparr>sizeof = 16, alignof = 8, is_nothrow_move_constructible = True,
         copy_throws = (\<lambda>v. Some copy_failed), move_throws = (\<lambda>v. None),
         moved_from = (\<lambda>v. 0), call_operator = (\<lambda>v a. Inr (v * a))\<rparr>
      else if T = 2 then
        \<lparr>sizeof = 8, alignof = 8, is_nothrow_move_constructible = False,
         copy_throws = (\<lambda>v. None), move_throws = (\<lambda>v. None),
         moved_from = (\<lambda>v. 0), call_operator = (\<lambda>v a. Inr (v - a))\<rparr>
      else
        \<lparr>sizeof = 8, alignof = 8, is_nothrow_move_constructible = True,
         copy_throws = (\<lambda>v. Some copy_failed), move_throws = (\<lambda>v. None),
         moved_from = (\<lambda>v. 0), call_operator = (\<lambda>v a. Inr (v + 2 * a))\<rparr>)"

definition example_program :: "(nat, nat, nat) program" where
  "example_program =
     \<lparr>types = example_types, sizeof_ptr = 8, alignof_ptr = 8, heap_capacity = 8\<rparr>"

text \<open>
  A memory with five containers: 0 holds the value 5 of type 0 inline, 1 holds the value 7
  of type 1 at heap address 1, 2 holds the value 9 of type 2 at heap address 2, 3 holds
  the value 6 of type 3 inline, 4 is empty.
\<close>

definition example_memory :: "nat memory" where
  "example_memory =
     \<lparr>stgs = (\<lambda>p. default_storage)
        (Function 0 := \<lparr>buf = Object 5, desc = Some (get_type_descriptor 0)\<rparr>,
         Function 1 := \<lparr>buf = Pointer 1, desc = Some (get_type_descriptor 1)\<rparr>,
         Function 2 := \<lparr>buf = Pointer 2, desc = Some (get_type_descriptor 2)\<rparr>,
         Function 3 := \<lparr>buf = Object 6, desc = Some (get_type_descriptor 3)\<rparr>,
         Function 4 := \<lparr>buf = Indeterminate, desc = Some empty_type_descriptor\<rparr>),
      heap = [(1, 7), (2, 9)]\<rparr>"

section \<open>Auxiliary facts\<close>

lemmas example_defs = example_program_def example_types_def example_memory_def
  copy_failed_def fits_small_storage_def INPLACE_BUFFER_SIZE_def INPLACE_BUFFER_ALIGNMENT_def

lemmas ops_defs = desc_copy_def desc_move_def desc_destroy_def desc_invoke_def
  empty_instance_def small_instance_def big_instance_def
  small_copy_def small_move_def small_destroy_def small_invoke_def
  big_copy_def big_move_def big_destroy_def big_invoke_def
  new_copy_def new_move_def delete_object_def
  set_buf_def set_desc_def get_desc_def get_static_def get_dynamic_def set_dynamic_def
  declare_storage_def default_storage_def allocated_def

lemmas obs_defs = operator_bool_def operator_call_def target_def as_target_def held_value_def

lemma fold_max_ge: "a \<le> fold max xs (a::nat)"
proof (induction xs arbitrary: a)
  case Nil then show ?case by simp
next
  case (Cons y ys)
  have "a \<le> max y a" by simp
  also have "\<dots> \<le> fold max ys (max y a)" by (rule Cons.IH)
  finally show ?case by simp
qed

lemma fold_max_mem: "x \<in> set xs \<Longrightarrow> x \<le> fold max xs (a::nat)"
proof (induction xs arbitrary: a)
  case Nil then show ?case by simp
next
  case (Cons y ys)
  show ?case
  proof (cases "x = y")
    case True
    have "y \<le> max y a" by simp
    also have "\<dots> \<le> fold max ys (max y a)" by (rule fold_max_ge)
    finally show ?thesis using True by simp
  next
    case False
    then have "x \<in> set ys" using Cons.prems by simp
    then show ?thesis using Cons.IH by simp
  qed
qed

lemma fresh_address_new: "map_of h (fresh_address h) = None"
proof -
  have "fresh_address h \<notin> fst ` set h"
  proof
    assume "fresh_address h \<in> fst ` set h"
    then have "fresh_address h \<in> set (map fst h)" by simp
    then have "fresh_address h \<le> fold max (map fst h) 0" by (rule fold_max_mem)
    then show False by (simp add: fresh_address_def)
  qed
  then show ?thesis by (simp add: map_of_eq_None_iff)
qed

lemma fresh_address_neq: "map_of h a = Some v \<Longrightarrow> fresh_address h \<noteq> a"
  using fresh_address_new[of h] by auto

lemma map_of_filter_neq: "a \<noteq> b \<Longrightarrow> map_of (filter (\<lambda>c. fst c \<noteq> b) h) a = map_of h a"
  by (induction h) auto

lemma valid_shape [consumes 1, case_names empty small big]:
  assumes "valid P m p"
  obtains "desc (stgs m p) = Some empty_type_descriptor"
  | T v where "desc (stgs m p) = Some (get_type_descriptor T)" "fits_small_storage P T"
      "buf (stgs m p) = Object v"
  | T a v where "desc (stgs m p) = Some (get_type_descriptor T)" "\<not> fits_small_storage P T"
      "buf (stgs m p) = Pointer a" "map_of (heap m) a = Some v"
  using assms
  by (auto simp add: valid_def get_desc_def get_static_def get_dynamic_def allocated_def
      split: option.splits desc_ptr.splits if_splits inplace_buffer.splits)

lemma restored_observations:
  assumes d: "get_desc m' (Function c) = get_desc m (Function c)"
    and h: "heap m' = heap m"
    and b: "get_desc m (Function c) \<noteq> Some empty_type_descriptor
           \<longrightarrow> buf (stgs m' (Function c)) = buf (stgs m (Function c))"
  shows "same_observations P c m m'"
proof (cases "get_desc m (Function c)")
  case None
  then show ?thesis using d
    by (simp add: same_observations_def obs_defs desc_invoke_def)
next
  case (Some dp)
  show ?thesis
  proof (cases dp)
    case empty_type_descriptor
    then show ?thesis using Some d
      by (simp add: same_observations_def obs_defs desc_invoke_def empty_instance_def)
  next
    case (get_type_descriptor T)
    then have "buf (stgs m' (Function c)) = buf (stgs m (Function c))"
      using Some b by simp
    then have "get_static m' (Function c) = get_static m (Function c)"
      "get_dynamic m' (Function c) = get_dynamic m (Function c)"
      by (simp_all add: get_static_def get_dynamic_def)
    then show ?thesis using Some d h get_type_descriptor
      by (simp add: same_observations_def obs_defs desc_invoke_def small_instance_def
          big_instance_def small_invoke_def big_invoke_def
          split: option.splits)
  qed
qed


lemmas split_all = option.splits if_splits outcome.splits

lemma assign_copy_failure:
  assumes "valid P m (Function c)" "valid P m (Function r)"
    and "assign_copy P c r m = Thrown e m'"
  shows "get_desc m' (Function c) = get_desc m (Function c) \<and> heap m' = heap m
        \<and> (get_desc m (Function c) \<noteq> Some empty_type_descriptor
             \<longrightarrow> buf (stgs m' (Function c)) = buf (stgs m (Function c)))
        \<and> (\<forall>k. k \<noteq> c \<longrightarrow> stgs m' (Function k) = stgs m (Function k))"
proof (cases "c = r")
  case True
  then show ?thesis using assms(3) by (simp add: assign_copy_def)
next
  case False
  from assms(1) assms(2) assms(3) False show ?thesis
    apply (cases rule: valid_shape[of P m "Function c"])
    apply (erule valid_shape[of P m "Function r"];
           simp add: assign_copy_def ops_defs split: split_all;
           (auto)[1])+
    done
qed


lemma assign_copy_defined:
  assumes "valid P m (Function c)" "valid P m (Function r)"
  shows "assign_copy P c r m \<noteq> Undefined_behaviour"
proof (cases "c = r")
  case True
  then show ?thesis by (simp add: assign_copy_def)
next
  case False
  from assms(1) assms(2) False show ?thesis
    apply (cases rule: valid_shape[of P m "Function c"])
    apply (erule valid_shape[of P m "Function r"];
           simp add: assign_copy_def ops_defs fresh_address_neq split: split_all)+
    done
qed

lemma assign_copy_propagates:
  assumes "valid P m (Function c)" "valid P m (Function r)" "c \<noteq> r" "d \<noteq> r"
    and "function_copy P d r m = Thrown e mc"
  shows "\<exists>m'. assign_copy P c r m = Thrown e m'"
  using assms
  apply (cases rule: valid_shape[of P m "Function c"])
  apply (erule valid_shape[of P m "Function r"];
         simp add: assign_copy_def function_copy_def ops_defs split: split_all)+
  done

lemma assign_copy_success:
  assumes "valid P m (Function c)" "valid P m (Function r)"
    and "assign_copy P c r m = Returned u m'"
  shows "get_desc m' (Function c) = get_desc m (Function r)
       \<and> held_value P m' c = held_value P m r
       \<and> (\<forall>args. operator_call P c args m' = operator_call P r args m)
       \<and> (\<forall>k. k \<noteq> c \<longrightarrow> stgs m' (Function k) = stgs m (Function k))
       \<and> (c \<noteq> r \<longrightarrow> (\<forall>T p q. target P T c m' = Returned (Some p) () \<and> 
                  target P T r m = Returned (Some q) () \<longrightarrow> p \<noteq> q))"
proof (cases "c = r")
  case True
  then show ?thesis using assms(3) by (simp add: assign_copy_def)
next
  case False
  from assms(1) assms(2) assms(3) False show ?thesis
    apply (cases rule: valid_shape[of P m "Function c"])
    apply (erule valid_shape[of P m "Function r"];
           simp add: assign_copy_def ops_defs obs_defs split: split_all;
           (auto simp add: fresh_address_neq map_of_filter_neq ops_defs)[1])+
    done
qed

lemma function_copy_returns:
  assumes "valid P m (Function s)" and "c \<noteq> s"
  shows "(\<exists>m'. function_copy P c s m = Returned () m') \<longleftrightarrow> copy_succeeds P m s"
  using assms
  by (cases rule: valid_shape;
      simp add: function_copy_def copy_succeeds_def obs_defs ops_defs
        split: option.splits if_splits; (auto)[1])

lemma assign_copy_returns:
  assumes "valid P m (Function c)" and "valid P m (Function r)" and "c \<noteq> r"
  shows "(\<exists>m'. assign_copy P c r m = Returned () m') \<longleftrightarrow> copy_succeeds P m r"
  using assms
  apply (cases rule: valid_shape[of P m "Function c"])
  apply (erule valid_shape[of P m "Function r"];
         simp add: assign_copy_def copy_succeeds_def obs_defs ops_defs fresh_address_neq
           split: option.splits if_splits; (auto)[1])+
  done

lemma function_from_returns:
  "(\<exists>m'. function_from P T this f m = Returned () m') \<longleftrightarrow> construction_succeeds P T f m"
  by (cases "fits_small_storage P T";
      simp add: function_from_def initialize_storage_def construction_succeeds_def ops_defs
        split: option.splits if_splits; (auto)[1])

section \<open>Copy-assignment\<close>

text \<open>
  C1. Copy-assignment gives the strong guarantee. For live containers \<open>c\<close> and \<open>r\<close>
  the assignment \<open>c = r\<close> has defined behaviour. If it leaves by an exception, then
  \<open>c\<close> shows what it showed before the call (emptiness test, every invocation, every
  typed probe and the object it points to), the heap is as it was and every other
  container is untouched. If it returns, \<open>c\<close> has the table of \<open>r\<close>, holds the value
  of \<open>r\<close>, answers every call as \<open>r\<close> did, and its typed probe points to an object
  other than the one of \<open>r\<close>. Whenever copying the value of \<open>r\<close> fails (as seen by
  copy-constructing some container from \<open>r\<close>), the assignment leaves by that exception.
  For distinct containers the assignment returns exactly when copying the value of \<open>r\<close>
  succeeds: \<open>r\<close> is empty, or the copy constructor does not throw on the value and, for
  a value on the heap, the allocator has room.
\<close>

theorem copy_assignment_strong_guarantee:
  assumes "valid P m (Function c)" and "valid P m (Function r)"
  shows "(case assign_copy P c r m of
            Thrown e m' \<Rightarrow>
              same_observations P c m m' \<and> heap m' = heap m
              \<and> (\<forall>k. k \<noteq> c \<longrightarrow> stgs m' (Function k) = stgs m (Function k))
          | Returned u m' \<Rightarrow>
              get_desc m' (Function c) = get_desc m (Function r)
              \<and> held_value P m' c = held_value P m r
              \<and> (\<forall>args. operator_call P c args m' = operator_call P r args m)
              \<and> (\<forall>k. k \<noteq> c \<longrightarrow> stgs m' (Function k) = stgs m (Function k))
              \<and> (c \<noteq> r \<longrightarrow> (\<forall>T p q. target P T c m' = Returned (Some p) () \<and>
                     target P T r m = Returned (Some q) () \<longrightarrow> p \<noteq> q))
          | Undefined_behaviour \<Rightarrow> False)
         \<and> (\<forall>d e mc. c \<noteq> r \<and> d \<noteq> r \<and> function_copy P d r m = Thrown e mc
               \<longrightarrow> (\<exists>m'. assign_copy P c r m = Thrown e m'))
         \<and> (c \<noteq> r \<longrightarrow>
               ((\<exists>m'. assign_copy P c r m = Returned () m') \<longleftrightarrow> copy_succeeds P m r))"
proof -
  have outcome: "case assign_copy P c r m of
            Thrown e m' \<Rightarrow>
              same_observations P c m m' \<and> heap m' = heap m
              \<and> (\<forall>k. k \<noteq> c \<longrightarrow> stgs m' (Function k) = stgs m (Function k))
          | Returned u m' \<Rightarrow>
              get_desc m' (Function c) = get_desc m (Function r)
              \<and> held_value P m' c = held_value P m r
              \<and> (\<forall>args. operator_call P c args m' = operator_call P r args m)
              \<and> (\<forall>k. k \<noteq> c \<longrightarrow> stgs m' (Function k) = stgs m (Function k))
              \<and> (c \<noteq> r \<longrightarrow> (\<forall>T p q. target P T c m' = Returned (Some p) () \<and>
                     target P T r m = Returned (Some q) () \<longrightarrow> p \<noteq> q))
          | Undefined_behaviour \<Rightarrow> False"
  proof (cases "assign_copy P c r m")
    case (Returned u m')
    from assign_copy_success[OF assms Returned] show ?thesis
      using Returned by simp
  next
    case (Thrown e m')
    from assign_copy_failure[OF assms Thrown]
    have low: "get_desc m' (Function c) = get_desc m (Function c)" "heap m' = heap m"
      "get_desc m (Function c) \<noteq> Some empty_type_descriptor
         \<longrightarrow> buf (stgs m' (Function c)) = buf (stgs m (Function c))"
      "\<forall>k. k \<noteq> c \<longrightarrow> stgs m' (Function k) = stgs m (Function k)"
      by simp_all
    from restored_observations[OF low(1) low(2) low(3)]
    have "same_observations P c m m'" .
    then show ?thesis using Thrown low(2) low(4) by simp
  next
    case Undefined_behaviour
    then show ?thesis using assign_copy_defined[OF assms] by simp
  qed
  have propagates: "\<forall>d e mc. c \<noteq> r \<and> d \<noteq> r \<and> function_copy P d r m = Thrown e mc
               \<longrightarrow> (\<exists>m'. assign_copy P c r m = Thrown e m')"
    using assign_copy_propagates[OF assms] by blast
  have returns: "c \<noteq> r \<longrightarrow>
               ((\<exists>m'. assign_copy P c r m = Returned () m') \<longleftrightarrow> copy_succeeds P m r)"
    using assign_copy_returns[OF assms] by (intro impI)
  show ?thesis by (intro conjI outcome propagates returns)
qed

theorem copy_assignment_strong_guarantee_witness:
  "valid example_program example_memory (Function 0)
   \<and> valid example_program example_memory (Function 1)
   \<and> valid example_program example_memory (Function 2)
   \<and> (\<exists>m'. assign_copy example_program 0 1 example_memory = Thrown copy_failed m'
         \<and> operator_call example_program 0 3 m' = Returned 8 ()
         \<and> heap m' = [(1, 7), (2, 9)])
   \<and> copy_succeeds example_program example_memory 0
   \<and> (\<exists>m'. assign_copy example_program 1 0 example_memory = Returned () m'
         \<and> get_desc m' (Function 1) = Some (get_type_descriptor 0)
         \<and> held_value example_program m' 1 = Some 5
         \<and> operator_call example_program 1 3 m' = Returned 8 ())
   \<and> copy_succeeds example_program example_memory 2
   \<and> (\<exists>m'. assign_copy example_program 0 2 example_memory = Returned () m'
         \<and> get_desc m' (Function 0) = Some (get_type_descriptor 2)
         \<and> held_value example_program m' 0 = Some 9
         \<and> operator_call example_program 0 4 m' = Returned 5 ())"
proof -
  have v0: "valid example_program example_memory (Function 0)"
    by (simp add: valid_def example_defs ops_defs)
  have v1: "valid example_program example_memory (Function 1)"
    by (simp add: valid_def example_defs ops_defs)
  have v2: "valid example_program example_memory (Function 2)"
    by (simp add: valid_def example_defs ops_defs)
  have "\<exists>m'. assign_copy example_program 0 1 example_memory = Thrown copy_failed m'"
    by (simp add: assign_copy_def example_defs ops_defs)
  then obtain m' where t: "assign_copy example_program 0 1 example_memory = Thrown copy_failed m'"
    by blast
  from copy_assignment_strong_guarantee[OF v0 v1] t
  have obs: "same_observations example_program 0 example_memory m'"
    and h: "heap m' = heap example_memory"
    by simp_all
  from obs have "operator_call example_program 0 3 m' = operator_call example_program 0 3 example_memory"
    by (simp add: same_observations_def)
  also have "\<dots> = Returned 8 ()"
    by (simp add: operator_call_def example_defs ops_defs)
  finally have call: "operator_call example_program 0 3 m' = Returned 8 ()" .
  have "heap m' = [(1, 7), (2, 9)]" using h by (simp add: example_memory_def)
  then have failure: "\<exists>m'. assign_copy example_program 0 1 example_memory = Thrown copy_failed m'
         \<and> operator_call example_program 0 3 m' = Returned 8 ()
         \<and> heap m' = [(1, 7), (2, 9)]"
    using t call by blast
  have s0: "copy_succeeds example_program example_memory 0"
    by (simp add: copy_succeeds_def obs_defs example_defs ops_defs)
  have o0: "get_desc example_memory (Function 0) = Some (get_type_descriptor 0)"
    "held_value example_program example_memory 0 = Some 5"
    "operator_call example_program 0 3 example_memory = Returned 8 ()"
    by (simp_all add: obs_defs example_defs ops_defs)
  from copy_assignment_strong_guarantee[OF v1 v0] s0
  obtain ma where ra: "assign_copy example_program 1 0 example_memory = Returned () ma"
    by auto
  from copy_assignment_strong_guarantee[OF v1 v0] ra o0
  have inline: "\<exists>m'. assign_copy example_program 1 0 example_memory = Returned () m'
         \<and> get_desc m' (Function 1) = Some (get_type_descriptor 0)
         \<and> held_value example_program m' 1 = Some 5
         \<and> operator_call example_program 1 3 m' = Returned 8 ()"
    by simp
  have s2: "copy_succeeds example_program example_memory 2"
    by (simp add: copy_succeeds_def obs_defs example_defs ops_defs)
  have o2: "get_desc example_memory (Function 2) = Some (get_type_descriptor 2)"
    "held_value example_program example_memory 2 = Some 9"
    "operator_call example_program 2 4 example_memory = Returned 5 ()"
    by (simp_all add: obs_defs example_defs ops_defs)
  from copy_assignment_strong_guarantee[OF v0 v2] s2
  obtain mb where rb: "assign_copy example_program 0 2 example_memory = Returned () mb"
    by auto
  from copy_assignment_strong_guarantee[OF v0 v2] rb o2
  have owned: "\<exists>m'. assign_copy example_program 0 2 example_memory = Returned () m'
         \<and> get_desc m' (Function 0) = Some (get_type_descriptor 2)
         \<and> held_value example_program m' 0 = Some 9
         \<and> operator_call example_program 0 4 m' = Returned 5 ()"
    by simp
  show ?thesis by (intro conjI v0 v1 v2 failure s0 inline s2 owned)
qed

text \<open>
  C8. Self-assignment is a no-op: both \<open>c = c\<close> and \<open>c = std::move(c)\<close> return with
  the whole state as it was, so nothing was copied, moved or destroyed and \<open>c\<close> shows what
  it showed before.
\<close>

theorem self_assignment_is_no_op:
  "assign_copy P c c m = Returned () m \<and> assign_move P c c m = Returned () m
   \<and> same_observations P c m m"
  by (simp add: assign_copy_def assign_move_def same_observations_def)

theorem self_assignment_is_no_op_witness:
  "assign_copy example_program 3 3 example_memory = Returned () example_memory
   \<and> assign_move example_program 3 3 example_memory = Returned () example_memory
   \<and> same_observations example_program 3 example_memory example_memory"
  by (rule self_assignment_is_no_op)

section \<open>Invocation of an empty container\<close>

text \<open>
  C3. Invoking an empty container, in particular a default-constructed one, with any
  argument list throws \<open>bad_function_call\<close>, whose message is fixed and which is none of
  the other exceptions; it neither returns a value nor has undefined behaviour.
\<close>

theorem empty_invocation_fails:
  "(\<not> operator_bool m this \<longrightarrow> operator_call P this args m = Thrown bad_function_call ())
   \<and> (\<exists>m'. function_default P this m = Returned () m' \<and> \<not> operator_bool m' this
          \<and> operator_call P this args m' = Thrown bad_function_call ())
   \<and> what bad_function_call = ''bad function call''
   \<and> bad_function_call \<noteq> other_exception msg"
  by (simp add: operator_bool_def operator_call_def function_default_def ops_defs)

theorem empty_invocation_fails_witness:
  "\<not> operator_bool example_memory 4
   \<and> operator_call example_program 4 (3::nat) example_memory = Thrown bad_function_call ()"
proof -
  have h: "\<not> operator_bool example_memory 4"
    by (simp add: operator_bool_def example_defs ops_defs)
  from empty_invocation_fails[where m = example_memory and this = 4 and P = example_program
      and args = 3 and msg = "[]"] h
  show ?thesis by simp
qed

section \<open>Selection of the storage strategy\<close>



section \<open>Move of a heap-stored value\<close>

text \<open>
  C5. For a container whose value is on the heap, the move of its table is the move of
  the owned strategy; move construction from it puts the stored address into the
  destination, gives the destination the source's table and resets the source's table
  pointer to the empty-state table. The heap is untouched, the source tests empty, its
  destructor is then a no-op (nothing is freed twice), and the destination answers calls
  and typed probes as the source did.
\<close>

theorem owned_move_empties_source:
  assumes "get_desc m (Function c) = Some (get_type_descriptor T)"
    and "\<not> fits_small_storage P T"
    and "get_dynamic m (Function c) = Some a"
    and "d \<noteq> c"
  shows "move (table P (get_type_descriptor T)) = big_move P T
     \<and> (\<exists>m'. function_move P d c m = Returned () m'
          \<and> get_dynamic m' (Function d) = Some a
          \<and> get_desc m' (Function d) = Some (get_type_descriptor T)
          \<and> get_desc m' (Function c) = Some empty_type_descriptor
          \<and> \<not> operator_bool m' c
          \<and> heap m' = heap m
          \<and> function_destructor P c m' = Returned () m'
          \<and> (\<forall>args. operator_call P d args m' = operator_call P c args m)
          \<and> (\<forall>U. target P U d m' = target P U c m))"
  using assms
  by (simp add: function_move_def function_destructor_def obs_defs ops_defs)

theorem owned_move_empties_source_witness:
  "get_desc example_memory (Function 2) = Some (get_type_descriptor 2)
   \<and> \<not> fits_small_storage example_program 2
   \<and> get_dynamic example_memory (Function 2) = Some 2
   \<and> (5::nat) \<noteq> 2
   \<and> (\<exists>m'. function_move example_program 5 2 example_memory = Returned () m'
         \<and> get_dynamic m' (Function 5) = Some 2
         \<and> \<not> operator_bool m' 2
         \<and> heap m' = heap example_memory
         \<and> function_destructor example_program 2 m' = Returned () m')"
proof -
  have h: "get_desc example_memory (Function 2) = Some (get_type_descriptor 2)"
    "\<not> fits_small_storage example_program 2"
    "get_dynamic example_memory (Function 2) = Some 2"
    "(5::nat) \<noteq> 2"
    by (simp_all add: example_defs ops_defs)
  from owned_move_empties_source[OF h] h show ?thesis by blast
qed

section \<open>The typed probe\<close>

lemma as_target_not_null: "as_target P T p m \<noteq> Returned None ()"
  by (simp add: as_target_def split: option.splits)

lemma function_from_defined: "function_from P T this f m \<noteq> Undefined_behaviour"
  by (simp add: function_from_def initialize_storage_def ops_defs split: option.splits)

lemma function_from_small:
  "fits_small_storage P T \<Longrightarrow> \<exists>m'. function_from P T this f m = Returned () m'"
  by (simp add: function_from_def initialize_storage_def)
lemma function_from_result:
  assumes "function_from P T this f m = Returned () m'"
  shows "get_desc m' (Function this) = Some (get_type_descriptor T)
       \<and> (if fits_small_storage P T then get_static m' (Function this) = Some f
          else \<exists>a. get_dynamic m' (Function this) = Some a \<and> map_of (heap m') a = Some f)"
proof (cases "fits_small_storage P T")
  case True
  then show ?thesis using assms
    by (auto simp add: function_from_def initialize_storage_def ops_defs)
next
  case False
  then show ?thesis using assms
    by (auto simp add: function_from_def initialize_storage_def ops_defs
        split: option.splits if_splits)
qed

lemma function_from_target:
  assumes "function_from P T this f m = Returned () m'"
  shows "(\<exists>p. target P T this m' = Returned (Some p) () \<and> load m' p = Some f)
       \<and> (\<forall>U. U \<noteq> T \<longrightarrow> target P U this m' = Returned None ())"
  using function_from_result[OF assms]
  by (cases "fits_small_storage P T") (auto simp add: target_def as_target_def)
lemma valid_target:
  assumes "valid P m (Function this)"
    and "get_desc m (Function this) = Some (get_type_descriptor U)"
  shows "\<exists>p v. target P U this m = Returned (Some p) () \<and> load m p = Some v"
  using assms
  by (cases rule: valid_shape)
     (auto simp add: target_def as_target_def get_desc_def get_static_def get_dynamic_def)

text \<open>
  C6. A container constructed from a value \<open>f\<close> of type \<open>T\<close> answers the typed probe for
  \<open>T\<close> with a pointer to an object of value \<open>f\<close> and the probe for any other type with
  the null pointer. Construction has defined behaviour; it returns exactly when the type
  fits the small storage, or the allocator has room and the move constructor does not
  throw, so it cannot fail for a type that fits. The probe of an empty container is null
  for every type. The probe is null exactly when the table pointer is not the address of
  the table of the queried type, and on a live container a match yields a pointer to a
  live object.
\<close>

theorem typed_probe_round_trip:
  "(\<forall>m'. function_from P T this f m = Returned () m' \<longrightarrow>
       (\<exists>p. target P T this m' = Returned (Some p) () \<and> load m' p = Some f)
       \<and> (\<forall>U. U \<noteq> T \<longrightarrow> target P U this m' = Returned None ()))
   \<and> function_from P T this f m \<noteq> Undefined_behaviour
   \<and> (fits_small_storage P T \<longrightarrow> (\<exists>m'. function_from P T this f m = Returned () m'))
   \<and> ((\<exists>m'. function_from P T this f m = Returned () m') \<longleftrightarrow> construction_succeeds P T f m)
   \<and> (\<not> operator_bool m this \<longrightarrow> target P U this m = Returned None ())
   \<and> (target P U this m = Returned None ()
        \<longleftrightarrow> get_desc m (Function this) \<noteq> Some (get_type_descriptor U))
   \<and> (valid P m (Function this) \<and> get_desc m (Function this) = Some (get_type_descriptor U)
        \<longrightarrow> (\<exists>p v. target P U this m = Returned (Some p) () \<and> load m p = Some v))"
proof -
  have a: "\<forall>m'. function_from P T this f m = Returned () m' \<longrightarrow>
       (\<exists>p. target P T this m' = Returned (Some p) () \<and> load m' p = Some f)
       \<and> (\<forall>U. U \<noteq> T \<longrightarrow> target P U this m' = Returned None ())"
    using function_from_target[of P T this f m] by (intro allI impI)
  have b: "function_from P T this f m \<noteq> Undefined_behaviour"
    by (rule function_from_defined)
  have c: "fits_small_storage P T \<longrightarrow> (\<exists>m'. function_from P T this f m = Returned () m')"
    using function_from_small[of P T this f m] by (intro impI)
  have c': "(\<exists>m'. function_from P T this f m = Returned () m') \<longleftrightarrow> construction_succeeds P T f m"
    by (rule function_from_returns)
  have d: "\<not> operator_bool m this \<longrightarrow> target P U this m = Returned None ()"
    by (simp add: operator_bool_def target_def)
  have e: "target P U this m = Returned None ()
        \<longleftrightarrow> get_desc m (Function this) \<noteq> Some (get_type_descriptor U)"
    by (simp add: target_def as_target_not_null)
  have g: "valid P m (Function this) \<and> get_desc m (Function this) = Some (get_type_descriptor U)
        \<longrightarrow> (\<exists>p v. target P U this m = Returned (Some p) () \<and> load m p = Some v)"
    using valid_target[of P m this U] by (intro impI) (elim conjE)
  show ?thesis by (intro conjI a b c c' d e g)
qed

theorem typed_probe_round_trip_witness:
  "fits_small_storage example_program 0
   \<and> \<not> operator_bool example_memory 4
   \<and> target example_program 0 4 example_memory = Returned None ()
   \<and> (\<exists>m' p. function_from example_program 0 7 5 example_memory = Returned () m'
         \<and> target example_program 0 7 m' = Returned (Some p) () \<and> load m' p = Some 5
         \<and> target example_program 1 7 m' = Returned None ())
   \<and> \<not> fits_small_storage example_program 2
   \<and> construction_succeeds example_program 2 11 example_memory
   \<and> (\<exists>m' p. function_from example_program 2 7 11 example_memory = Returned () m'
         \<and> target example_program 2 7 m' = Returned (Some p) () \<and> load m' p = Some 11
         \<and> target example_program 0 7 m' = Returned None ())"
proof -
  have h: "fits_small_storage example_program 0" "\<not> operator_bool example_memory 4"
    by (simp_all add: operator_bool_def example_defs ops_defs)
  note t = typed_probe_round_trip[where P = example_program and T = 0 and this = 7 and f = 5
      and m = example_memory and U = 0]
  from t h(1) obtain m' where r: "function_from example_program 0 7 5 example_memory = Returned () m'"
    by blast
  from t r have "(\<exists>p. target example_program 0 7 m' = Returned (Some p) () \<and> load m' p = Some 5)
      \<and> target example_program 1 7 m' = Returned None ()"
    by simp
  then have small: "\<exists>m' p. function_from example_program 0 7 5 example_memory = Returned () m'
         \<and> target example_program 0 7 m' = Returned (Some p) () \<and> load m' p = Some 5
         \<and> target example_program 1 7 m' = Returned None ()"
    using r by blast
  from typed_probe_round_trip[where P = example_program and T = 0 and this = 4
      and f = 5 and m = example_memory and U = 0] h(2)
  have empty: "target example_program 0 4 example_memory = Returned None ()" by blast
  have n: "\<not> fits_small_storage example_program 2"
    by (simp add: example_defs)
  have k: "construction_succeeds example_program 2 11 example_memory"
    by (simp add: construction_succeeds_def example_defs)
  note u = typed_probe_round_trip[where P = example_program and T = 2 and this = 7 and f = 11
      and m = example_memory and U = 0]
  from u k obtain mb where rb: "function_from example_program 2 7 11 example_memory = Returned () mb"
    by blast
  from u rb have "(\<exists>p. target example_program 2 7 mb = Returned (Some p) () \<and> load mb p = Some 11)
      \<and> target example_program 0 7 mb = Returned None ()"
    by simp
  then have big: "\<exists>m' p. function_from example_program 2 7 11 example_memory = Returned () m'
         \<and> target example_program 2 7 m' = Returned (Some p) () \<and> load m' p = Some 11
         \<and> target example_program 0 7 m' = Returned None ()"
    using rb by blast
  show ?thesis by (intro conjI h empty small n k big)
qed

section \<open>Copy construction\<close>

lemma function_copy_invoke:
  assumes "valid P m (Function c)" and "d \<noteq> c"
  shows "function_copy P d c m \<noteq> Undefined_behaviour
     \<and> (\<forall>m'. function_copy P d c m = Returned () m' \<longrightarrow>
           (\<forall>args. operator_call P d args m' = operator_call P c args m
                  \<and> operator_call P c args m' = operator_call P c args m))"
  using assms
  by (cases rule: valid_shape;
      simp add: function_copy_def operator_call_def ops_defs fresh_address_neq
        split: option.splits if_splits)

text \<open>
  C7. Copy-then-invoke: copy construction from a live container has defined behaviour.
  It returns exactly when copying the held value succeeds (the container is empty, or
  the copy constructor does not throw and, for a value on the heap, the allocator has
  room), and then the copy answers every argument list as the original did before the
  copy, and so does the original still.
\<close>

theorem copy_then_invoke:
  assumes "valid P m (Function c)" and "d \<noteq> c"
  shows "function_copy P d c m \<noteq> Undefined_behaviour
     \<and> (\<forall>m'. function_copy P d c m = Returned () m' \<longrightarrow>
           (\<forall>args. operator_call P d args m' = operator_call P c args m
                  \<and> operator_call P c args m' = operator_call P c args m))
     \<and> ((\<exists>m'. function_copy P d c m = Returned () m') \<longleftrightarrow> copy_succeeds P m c)"
proof -
  have a: "function_copy P d c m \<noteq> Undefined_behaviour"
    using function_copy_invoke[OF assms] by (rule conjunct1)
  have b: "\<forall>m'. function_copy P d c m = Returned () m' \<longrightarrow>
           (\<forall>args. operator_call P d args m' = operator_call P c args m
                  \<and> operator_call P c args m' = operator_call P c args m)"
    using function_copy_invoke[OF assms] by (rule conjunct2)
  have e: "(\<exists>m'. function_copy P d c m = Returned () m') \<longleftrightarrow> copy_succeeds P m c"
    by (rule function_copy_returns[OF assms])
  show ?thesis by (intro conjI a b e)
qed

theorem copy_then_invoke_witness:
  "valid example_program example_memory (Function 0)
   \<and> valid example_program example_memory (Function 2) \<and> (5::nat) \<noteq> 0 \<and> (5::nat) \<noteq> 2
   \<and> copy_succeeds example_program example_memory 0
   \<and> (\<exists>m'. function_copy example_program 5 0 example_memory = Returned () m'
         \<and> operator_call example_program 5 3 m' = Returned 8 ()
         \<and> operator_call example_program 0 3 m' = Returned 8 ())
   \<and> copy_succeeds example_program example_memory 2
   \<and> (\<exists>m'. function_copy example_program 5 2 example_memory = Returned () m'
         \<and> operator_call example_program 5 4 m' = Returned 5 ()
         \<and> operator_call example_program 2 4 m' = Returned 5 ())"
proof -
  have v0: "valid example_program example_memory (Function 0)"
    by (simp add: valid_def example_defs ops_defs)
  have v2: "valid example_program example_memory (Function 2)"
    by (simp add: valid_def example_defs ops_defs)
  have n0: "(5::nat) \<noteq> 0" and n2: "(5::nat) \<noteq> 2" by simp_all
  have s0: "copy_succeeds example_program example_memory 0"
    by (simp add: copy_succeeds_def obs_defs example_defs ops_defs)
  have s2: "copy_succeeds example_program example_memory 2"
    by (simp add: copy_succeeds_def obs_defs example_defs ops_defs)
  have c0: "operator_call example_program 0 3 example_memory = Returned 8 ()"
    by (simp add: operator_call_def example_defs ops_defs)
  have c2: "operator_call example_program 2 4 example_memory = Returned 5 ()"
    by (simp add: operator_call_def example_defs ops_defs)
  from copy_then_invoke[OF v0 n0] s0
  obtain ma where ra: "function_copy example_program 5 0 example_memory = Returned () ma"
    by blast
  from copy_then_invoke[OF v0 n0] ra c0
  have "operator_call example_program 5 3 ma = Returned 8 ()
      \<and> operator_call example_program 0 3 ma = Returned 8 ()"
    by simp
  then have inline: "\<exists>m'. function_copy example_program 5 0 example_memory = Returned () m'
         \<and> operator_call example_program 5 3 m' = Returned 8 ()
         \<and> operator_call example_program 0 3 m' = Returned 8 ()"
    using ra by blast
  from copy_then_invoke[OF v2 n2] s2
  obtain mb where rb: "function_copy example_program 5 2 example_memory = Returned () mb"
    by blast
  from copy_then_invoke[OF v2 n2] rb c2
  have "operator_call example_program 5 4 mb = Returned 5 ()
      \<and> operator_call example_program 2 4 mb = Returned 5 ()"
    by simp
  then have owned: "\<exists>m'. function_copy example_program 5 2 example_memory = Returned () m'
         \<and> operator_call example_program 5 4 m' = Returned 5 ()
         \<and> operator_call example_program 2 4 m' = Returned 5 ()"
    using rb by blast
  show ?thesis by (intro conjI v0 v2 n0 n2 s0 inline s2 owned)
qed

lemma function_copy_table:
  assumes "valid P m (Function s)" and "c \<noteq> s"
    and "function_copy P c s m = Returned () m'"
  shows "get_desc m' (Function c) = get_desc m (Function s)
       \<and> get_desc m' (Function s) = get_desc m (Function s)
       \<and> operator_bool m' c = operator_bool m s
       \<and> (\<forall>T. (target P T c m' = Returned None ()) = (target P T s m = Returned None ()))
       \<and> (\<forall>T p. target P T c m' = Returned (Some p) ()
             \<longrightarrow> (\<exists>q. target P T s m = Returned (Some q) () \<and> load m' p = load m q))
       \<and> held_value P m' c = held_value P m s"
  using assms
  by (cases rule: valid_shape;
      simp add: function_copy_def obs_defs ops_defs fresh_address_neq
        split: option.splits if_splits; (auto simp add: obs_defs ops_defs)[1])

lemma function_copy_empty:
  assumes "\<not> operator_bool m s" and "c \<noteq> s"
  shows "\<exists>m'. function_copy P c s m = Returned () m' \<and> \<not> operator_bool m' c"
  using assms
  by (simp add: function_copy_def operator_bool_def ops_defs)

text \<open>
  C10. Copy construction from a live container returns exactly when copying the held
  value succeeds (always for an empty source; for an inline or heap-stored value when the
  copy constructor does not throw and, on the heap, the allocator has room). When it
  returns, the copy's table pointer is the source's table pointer, whichever table that
  is, and the source's is unchanged. So the emptiness tests agree, and for every type the
  typed probe of the copy is null exactly when the probe of the source is, a non-null
  probe of the copy pointing to an object with the value of the source's; the held values
  agree. Copy construction from an empty container returns an empty container.
\<close>

theorem copy_construction_keeps_table:
  assumes "valid P m (Function s)" and "c \<noteq> s"
  shows "(\<forall>m'. function_copy P c s m = Returned () m' \<longrightarrow>
            get_desc m' (Function c) = get_desc m (Function s)
            \<and> get_desc m' (Function s) = get_desc m (Function s)
            \<and> operator_bool m' c = operator_bool m s
            \<and> (\<forall>T. (target P T c m' = Returned None ()) = (target P T s m = Returned None ()))
            \<and> (\<forall>T p. target P T c m' = Returned (Some p) ()
                 \<longrightarrow> (\<exists>q. target P T s m = Returned (Some q) () \<and> load m' p = load m q))
            \<and> held_value P m' c = held_value P m s)
       \<and> (\<not> operator_bool m s \<longrightarrow>
            (\<exists>m'. function_copy P c s m = Returned () m' \<and> \<not> operator_bool m' c))
       \<and> ((\<exists>m'. function_copy P c s m = Returned () m') \<longleftrightarrow> copy_succeeds P m s)"
proof -
  have a: "\<forall>m'. function_copy P c s m = Returned () m' \<longrightarrow>
            get_desc m' (Function c) = get_desc m (Function s)
            \<and> get_desc m' (Function s) = get_desc m (Function s)
            \<and> operator_bool m' c = operator_bool m s
            \<and> (\<forall>T. (target P T c m' = Returned None ()) = (target P T s m = Returned None ()))
            \<and> (\<forall>T p. target P T c m' = Returned (Some p) ()
                 \<longrightarrow> (\<exists>q. target P T s m = Returned (Some q) () \<and> load m' p = load m q))
            \<and> held_value P m' c = held_value P m s"
    using function_copy_table[OF assms] by (intro allI impI)
  have b: "\<not> operator_bool m s \<longrightarrow>
            (\<exists>m'. function_copy P c s m = Returned () m' \<and> \<not> operator_bool m' c)"
    using function_copy_empty[of m s c P] assms(2) by (intro impI)
  have e: "(\<exists>m'. function_copy P c s m = Returned () m') \<longleftrightarrow> copy_succeeds P m s"
    by (rule function_copy_returns[OF assms])
  show ?thesis by (intro conjI a b e)
qed

theorem copy_construction_keeps_table_witness:
  "valid example_program example_memory (Function 4) \<and> (5::nat) \<noteq> 4
   \<and> \<not> operator_bool example_memory 4
   \<and> (\<exists>m'. function_copy example_program 5 4 example_memory = Returned () m'
         \<and> \<not> operator_bool m' 5
         \<and> get_desc m' (Function 5) = Some empty_type_descriptor)
   \<and> valid example_program example_memory (Function 0) \<and> (5::nat) \<noteq> 0
   \<and> copy_succeeds example_program example_memory 0
   \<and> (\<exists>m'. function_copy example_program 5 0 example_memory = Returned () m'
         \<and> get_desc m' (Function 5) = Some (get_type_descriptor 0)
         \<and> operator_bool m' 5
         \<and> held_value example_program m' 5 = Some 5)
   \<and> valid example_program example_memory (Function 2) \<and> (5::nat) \<noteq> 2
   \<and> copy_succeeds example_program example_memory 2
   \<and> (\<exists>m'. function_copy example_program 5 2 example_memory = Returned () m'
         \<and> get_desc m' (Function 5) = Some (get_type_descriptor 2)
         \<and> operator_bool m' 5
         \<and> held_value example_program m' 5 = Some 9)"
proof -
  have v: "valid example_program example_memory (Function 4)"
    by (simp add: valid_def example_defs ops_defs)
  have n: "(5::nat) \<noteq> 4" by simp
  have e: "\<not> operator_bool example_memory 4"
    by (simp add: operator_bool_def example_defs ops_defs)
  have d: "get_desc example_memory (Function 4) = Some empty_type_descriptor"
    by (simp add: example_defs ops_defs)
  from copy_construction_keeps_table[OF v n] e
  obtain m' where r: "function_copy example_program 5 4 example_memory = Returned () m'"
    and b: "\<not> operator_bool m' 5"
    by blast
  from copy_construction_keeps_table[OF v n] r d
  have "get_desc m' (Function 5) = Some empty_type_descriptor" by simp
  then have empty: "\<exists>m'. function_copy example_program 5 4 example_memory = Returned () m'
         \<and> \<not> operator_bool m' 5
         \<and> get_desc m' (Function 5) = Some empty_type_descriptor"
    using r b by blast
  have v0: "valid example_program example_memory (Function 0)"
    by (simp add: valid_def example_defs ops_defs)
  have n0: "(5::nat) \<noteq> 0" by simp
  have s0: "copy_succeeds example_program example_memory 0"
    by (simp add: copy_succeeds_def obs_defs example_defs ops_defs)
  have o0: "get_desc example_memory (Function 0) = Some (get_type_descriptor 0)"
    "operator_bool example_memory 0"
    "held_value example_program example_memory 0 = Some 5"
    by (simp_all add: obs_defs example_defs ops_defs)
  from copy_construction_keeps_table[OF v0 n0] s0
  obtain ma where ra: "function_copy example_program 5 0 example_memory = Returned () ma"
    by blast
  from copy_construction_keeps_table[OF v0 n0] ra o0
  have "get_desc ma (Function 5) = Some (get_type_descriptor 0) \<and> operator_bool ma 5
      \<and> held_value example_program ma 5 = Some 5"
    by simp
  then have inline: "\<exists>m'. function_copy example_program 5 0 example_memory = Returned () m'
         \<and> get_desc m' (Function 5) = Some (get_type_descriptor 0)
         \<and> operator_bool m' 5
         \<and> held_value example_program m' 5 = Some 5"
    using ra by blast
  have v2: "valid example_program example_memory (Function 2)"
    by (simp add: valid_def example_defs ops_defs)
  have n2: "(5::nat) \<noteq> 2" by simp
  have s2: "copy_succeeds example_program example_memory 2"
    by (simp add: copy_succeeds_def obs_defs example_defs ops_defs)
  have o2: "get_desc example_memory (Function 2) = Some (get_type_descriptor 2)"
    "operator_bool example_memory 2"
    "held_value example_program example_memory 2 = Some 9"
    by (simp_all add: obs_defs example_defs ops_defs)
  from copy_construction_keeps_table[OF v2 n2] s2
  obtain mb where rb: "function_copy example_program 5 2 example_memory = Returned () mb"
    by blast
  from copy_construction_keeps_table[OF v2 n2] rb o2
  have "get_desc mb (Function 5) = Some (get_type_descriptor 2) \<and> operator_bool mb 5
      \<and> held_value example_program mb 5 = Some 9"
    by simp
  then have owned: "\<exists>m'. function_copy example_program 5 2 example_memory = Returned () m'
         \<and> get_desc m' (Function 5) = Some (get_type_descriptor 2)
         \<and> operator_bool m' 5
         \<and> held_value example_program m' 5 = Some 9"
    using rb by blast
  show ?thesis by (intro conjI v n e empty v0 n0 s0 inline v2 n2 s2 owned)
qed

section \<open>Move construction and move-assignment\<close>






section \<open>The table pointer is never null\<close>











end
